theory Spec2Isabelle
  imports Main
begin

section \<open>The program\<close>

text \<open>
  The whole program is one module, \<^verbatim>\<open>app/main.py\<close>:
  \<^verbatim>\<open>
  from fastapi import FastAPI

  app = FastAPI(
    title="CI/CD Demo API",
    description="Complete CI/CD pipeline demonstration",
    version="1.0.0"
  )

  @app.get("/")
  def read_root():
    return {
      "message": "Hello from CI/CD Pipeline!",
      "status": "running"
    }

  @app.get("/health")
  def health_check():
    return {"status": "healthy"}
  \<close>
  It builds an application object of the web framework and registers two handlers on it.
  The handlers are embedded from the module. The class \<^verbatim>\<open>FastAPI\<close>, its decorator
  \<^verbatim>\<open>get\<close> and the router that serves a request are the imported framework's: they are
  embedded as far as the module relies on them (section \<open>The framework\<close>), with the
  keyword arguments that the module does not pass at the framework's defaults.
\<close>

section \<open>Python values, exceptions and JSON\<close>

text \<open>
  The values a handler can return. A dict is an association list in insertion order, each
  key once. \<open>PyList\<close> stands for any of the sequences that the encoder iterates (list,
  tuple, set). \<open>PyInstance\<close> is an instance of an ordinary class, given by its attribute
  dict (\<^verbatim>\<open>vars(obj)\<close>). \<open>PyOpaque\<close> is an object that is no mapping and has no
  attribute dict, so that both \<^verbatim>\<open>dict(obj)\<close> and \<^verbatim>\<open>vars(obj)\<close> raise.
\<close>

datatype py =
    PyNone
  | PyBool bool
  | PyInt int
  | PyStr string
  | PyList "py list"
  | PyDict "(py \<times> py) list"
  | PyInstance "(py \<times> py) list"
  | PyOpaque string

datatype error = TypeError | ValueError | RuntimeError

datatype json =
    JNull
  | JBool bool
  | JNumber int
  | JString string
  | JArray "json list"
  | JObject "(string \<times> json) list"

text \<open>Decimal notation of an integer, as \<^verbatim>\<open>json.dumps\<close> writes an int that is a dict key.\<close>

fun digits :: "nat \<Rightarrow> string" where
  "digits n =
     (if n < 10 then [char_of (48 + n)]
      else digits (n div 10) @ [char_of (48 + n mod 10)])"

definition str_of_int :: "int \<Rightarrow> string" where
  "str_of_int i = (if i < 0 then CHR ''-'' # digits (nat (- i)) else digits (nat i))"

text \<open>
  The encoder leaves out the items of a dict whose key is a \<^verbatim>\<open>str\<close> that starts with
  \<^verbatim>\<open>_sa\<close>.
\<close>

fun sa_key :: "py \<Rightarrow> bool" where
  "sa_key (PyStr s) = (take 3 s = ''_sa'')"
| "sa_key _ = False"

text \<open>
  An encoded key is stored in the encoded dict, which raises \<^verbatim>\<open>TypeError\<close> when the
  key is unhashable (an encoded sequence, dict or instance). \<^verbatim>\<open>json.dumps\<close> then writes
  a \<^verbatim>\<open>str\<close> key as it is and an \<^verbatim>\<open>int\<close>, \<^verbatim>\<open>bool\<close> or \<^verbatim>\<open>None\<close> key in its
  JSON notation.
\<close>

fun json_key :: "json \<Rightarrow> error + string" where
  "json_key (JString s) = Inr s"
| "json_key (JNumber i) = Inr (str_of_int i)"
| "json_key (JBool b) = Inr (if b then ''true'' else ''false'')"
| "json_key JNull = Inr ''null''"
| "json_key (JArray _) = Inl TypeError"
| "json_key (JObject _) = Inl TypeError"

text \<open>
  The framework's serialisation of a handler's return value (its \<^verbatim>\<open>jsonable_encoder\<close>
  followed by \<^verbatim>\<open>json.dumps\<close>), up to the JSON value that the response body denotes.
  It raises on the first value it cannot encode. For an item of a dict the key is encoded
  first, then the value, then the item is stored. An object that is none of the known
  types is encoded as the dict of its attributes, and refused with \<^verbatim>\<open>ValueError\<close>
  when it has none.
\<close>

function (sequential) jsonable_encoder :: "py \<Rightarrow> error + json"
  and encode_list :: "py list \<Rightarrow> error + json list"
  and encode_items :: "(py \<times> py) list \<Rightarrow> error + (string \<times> json) list"
where
  "jsonable_encoder PyNone = Inr JNull"
| "jsonable_encoder (PyBool b) = Inr (JBool b)"
| "jsonable_encoder (PyInt i) = Inr (JNumber i)"
| "jsonable_encoder (PyStr s) = Inr (JString s)"
| "jsonable_encoder (PyList xs) =
     (case encode_list xs of Inl e \<Rightarrow> Inl e | Inr js \<Rightarrow> Inr (JArray js))"
| "jsonable_encoder (PyDict kvs) =
     (case encode_items kvs of Inl e \<Rightarrow> Inl e | Inr js \<Rightarrow> Inr (JObject js))"
| "jsonable_encoder (PyInstance kvs) =
     (case encode_items kvs of Inl e \<Rightarrow> Inl e | Inr js \<Rightarrow> Inr (JObject js))"
| "jsonable_encoder (PyOpaque c) = Inl ValueError"
| "encode_list [] = Inr []"
| "encode_list (x # xs) =
     (case jsonable_encoder x of
        Inl e \<Rightarrow> Inl e
      | Inr j \<Rightarrow> (case encode_list xs of Inl e \<Rightarrow> Inl e | Inr js \<Rightarrow> Inr (j # js)))"
| "encode_items [] = Inr []"
| "encode_items ((k, v) # kvs) =
     (if sa_key k then encode_items kvs
      else
        (case jsonable_encoder k of
           Inl e \<Rightarrow> Inl e
         | Inr jk \<Rightarrow>
             (case jsonable_encoder v of
                Inl e \<Rightarrow> Inl e
              | Inr jv \<Rightarrow>
                  (case json_key jk of
                     Inl e \<Rightarrow> Inl e
                   | Inr s \<Rightarrow>
                       (case encode_items kvs of
                          Inl e \<Rightarrow> Inl e
                        | Inr js \<Rightarrow> Inr ((s, jv) # js))))))"
  by pat_completeness auto

termination
  by (relation "measure (case_sum size
                   (case_sum (size_list size) (size_list (size_prod size size))))")
     auto

declare digits.simps [simp del]

section \<open>The framework\<close>

subsection \<open>Requests, responses, routes\<close>

datatype http_method = GET | HEAD | POST | PUT | DELETE | PATCH | OPTIONS | TRACE | CONNECT

text \<open>
  A request as the router sees it: the method, the path (without the query string), and the
  rest of its content.
\<close>

record request =
  req_method :: http_method
  req_path :: string
  req_query :: string
  req_headers :: "(string \<times> string) list"
  req_body :: string

text \<open>The document that the generated schema endpoint serves, reduced to what it is built from.\<close>

record openapi_doc =
  info_title :: string
  info_description :: string
  info_version :: string
  operations :: "(string \<times> http_method list) list"

datatype content =
    JSON json
  | Schema openapi_doc
  | Swagger_UI string string
  | ReDoc string string
  | OAuth2_Redirect_Page
  | PlainText string
  | Redirect string

record response =
  status_code :: nat
  body :: content

text \<open>
  The callables a route can point to: the module's two handlers, and the four functions that
  the framework's constructor defines for its generated documentation.
\<close>

datatype endpoint =
    Endpoint_read_root
  | Endpoint_health_check
  | Endpoint_openapi
  | Endpoint_swagger_ui_html
  | Endpoint_swagger_ui_redirect
  | Endpoint_redoc_html

text \<open>
  A route. \<open>route_status_code\<close> is the decorator's \<^verbatim>\<open>status_code\<close> argument
  (\<open>None\<close> when it is not given); \<open>include_in_schema\<close> tells a path operation registered
  by a decorator from a documentation route of the framework.
\<close>

record route =
  route_path :: string
  route_methods :: "http_method list"
  route_endpoint :: endpoint
  route_status_code :: "nat option"
  include_in_schema :: bool

text \<open>
  The application object. \<open>openapi_schema\<close> is the only field that serving a request can
  change: the schema is generated on first use and kept.
\<close>

record fastapi =
  title :: string
  description :: string
  version :: string
  openapi_url :: "string option"
  docs_url :: "string option"
  redoc_url :: "string option"
  swagger_ui_oauth2_redirect_url :: "string option"
  routes :: "route list"
  openapi_schema :: "openapi_doc option"

subsection \<open>Construction and registration\<close>

text \<open>
  \<^verbatim>\<open>add_route\<close> is the router's plain registration, used by the constructor: the route
  answers \<^verbatim>\<open>GET\<close>, and with it \<^verbatim>\<open>HEAD\<close>.
\<close>

definition add_route :: "string \<Rightarrow> endpoint \<Rightarrow> fastapi \<Rightarrow> fastapi" where
  "add_route p e a =
     a\<lparr>routes := routes a @
        [\<lparr>route_path = p, route_methods = [GET, HEAD], route_endpoint = e,
          route_status_code = None, include_in_schema = False\<rparr>]\<rparr>"

text \<open>
  The constructor ends with its method \<^verbatim>\<open>setup\<close>, which installs the documentation
  routes that are switched on.
\<close>

definition fastapi_setup :: "fastapi \<Rightarrow> fastapi" where
  "fastapi_setup a =
     (let a1 = (case openapi_url a of
                  Some u \<Rightarrow> add_route u Endpoint_openapi a
                | None \<Rightarrow> a);
          a2 = (case (openapi_url a, docs_url a) of
                  (Some _, Some d) \<Rightarrow>
                    (let a' = add_route d Endpoint_swagger_ui_html a1
                     in case swagger_ui_oauth2_redirect_url a of
                          Some r \<Rightarrow> add_route r Endpoint_swagger_ui_redirect a'
                        | None \<Rightarrow> a')
                | _ \<Rightarrow> a1);
          a3 = (case (openapi_url a, redoc_url a) of
                  (Some _, Some d) \<Rightarrow> add_route d Endpoint_redoc_html a2
                | _ \<Rightarrow> a2)
      in a3)"

text \<open>
  The constructor, with the three keyword arguments that the module passes. The module
  passes no \<^verbatim>\<open>openapi_url\<close>, \<^verbatim>\<open>docs_url\<close>, \<^verbatim>\<open>redoc_url\<close> or
  \<^verbatim>\<open>swagger_ui_oauth2_redirect_url\<close>, so they have the framework's defaults.
\<close>

definition FastAPI :: "string \<Rightarrow> string \<Rightarrow> string \<Rightarrow> fastapi" where
  "FastAPI t d v =
     fastapi_setup \<lparr>title = t, description = d, version = v,
            openapi_url = Some ''/openapi.json'',
            docs_url = Some ''/docs'',
            redoc_url = Some ''/redoc'',
            swagger_ui_oauth2_redirect_url = Some ''/docs/oauth2-redirect'',
            routes = [],
            openapi_schema = None\<rparr>"

text \<open>
  The decorator \<^verbatim>\<open>@app.get(path)\<close> applied to a function: a path operation for the
  method \<^verbatim>\<open>GET\<close> alone, with no \<^verbatim>\<open>status_code\<close>, appended to the route table.
\<close>

definition get :: "string \<Rightarrow> endpoint \<Rightarrow> fastapi \<Rightarrow> fastapi" where
  "get p e a =
     a\<lparr>routes := routes a @
        [\<lparr>route_path = p, route_methods = [GET], route_endpoint = e,
          route_status_code = None, include_in_schema = True\<rparr>]\<rparr>"

section \<open>The module\<close>

text \<open>
  A handler takes no argument. It is embedded as a function of the module's state (the
  application object) that returns its result, or the exception it raises, and the state
  it leaves.
\<close>

definition read_root :: "fastapi \<Rightarrow> (error + py) \<times> fastapi" where
  "read_root s =
     (Inr (PyDict [(PyStr ''message'', PyStr ''Hello from CI/CD Pipeline!''),
                   (PyStr ''status'', PyStr ''running'')]), s)"

definition health_check :: "fastapi \<Rightarrow> (error + py) \<times> fastapi" where
  "health_check s = (Inr (PyDict [(PyStr ''status'', PyStr ''healthy'')]), s)"

text \<open>The module's three statements, in order.\<close>

definition app :: fastapi where
  "app =
     get ''/health'' Endpoint_health_check
       (get ''/'' Endpoint_read_root
         (FastAPI ''CI/CD Demo API'' ''Complete CI/CD pipeline demonstration'' ''1.0.0''))"

section \<open>Serving a request\<close>

subsection \<open>Matching\<close>

text \<open>
  A route's path is compiled to a pattern. For a path without parameters, as all paths of
  this application are, the pattern is \<^verbatim>\<open>^\<close>, the escaped path and \<^verbatim>\<open>$\<close>, and it is
  applied with \<^verbatim>\<open>re.match\<close>. Python's \<^verbatim>\<open>$\<close> matches at the end of the string and
  also before a line feed that ends the string, so the pattern accepts the path itself and
  the path followed by one line feed.
\<close>

definition path_regex_match :: "string \<Rightarrow> string \<Rightarrow> bool" where
  "path_regex_match route_p p = (p = route_p \<or> p = route_p @ [CHR 0x0A])"

text \<open>
  A route matches a request whose path its pattern accepts: partially when the route has
  methods and the request's method is not among them, fully otherwise.
\<close>

datatype match = NONE | PARTIAL | FULL

definition matches :: "route \<Rightarrow> request \<Rightarrow> match" where
  "matches rt r =
     (if path_regex_match (route_path rt) (req_path r)
      then (if route_methods rt \<noteq> [] \<and> req_method r \<notin> set (route_methods rt)
            then PARTIAL else FULL)
      else NONE)"

text \<open>
  The router goes through the route table in order. The first full match is served; the
  first partial match is remembered and used when no route matches fully.
\<close>

datatype lookup = Found route | Method_Mismatch route | Not_Matched

fun route_lookup :: "route list \<Rightarrow> request \<Rightarrow> route option \<Rightarrow> lookup" where
  "route_lookup [] r partial =
     (case partial of Some p \<Rightarrow> Method_Mismatch p | None \<Rightarrow> Not_Matched)"
| "route_lookup (rt # rts) r partial =
     (case matches rt r of
        FULL \<Rightarrow> Found rt
      | PARTIAL \<Rightarrow> route_lookup rts r (case partial of None \<Rightarrow> Some rt | Some p \<Rightarrow> Some p)
      | NONE \<Rightarrow> route_lookup rts r partial)"

text \<open>
  When nothing matches, the router tries the path with its trailing slashes removed, or with
  one added when it does not end with a slash, and redirects there if a route matches that
  path, fully or partially.
\<close>

definition rstrip_slash :: "string \<Rightarrow> string" where
  "rstrip_slash p = rev (dropWhile (\<lambda>c. c = CHR ''/'') (rev p))"

definition redirect_path :: "string \<Rightarrow> string" where
  "redirect_path p = (if p \<noteq> [] \<and> last p = CHR ''/'' then rstrip_slash p else p @ ''/'')"

subsection \<open>Responses\<close>

definition not_found :: response where
  "not_found = \<lparr>status_code = 404, body = JSON (JObject [(''detail'', JString ''Not Found'')])\<rparr>"

definition method_not_allowed :: response where
  "method_not_allowed =
     \<lparr>status_code = 405, body = JSON (JObject [(''detail'', JString ''Method Not Allowed'')])\<rparr>"

definition internal_server_error :: response where
  "internal_server_error = \<lparr>status_code = 500, body = PlainText ''Internal Server Error''\<rparr>"

text \<open>
  A path operation calls its handler with no argument taken from the request (the handlers
  of this module declare no parameter), encodes the value returned and answers with the
  route's status code, 200 when the decorator gave none. An exception raised by the handler
  or by the encoder becomes the server's 500 response.
\<close>

definition path_operation ::
  "route \<Rightarrow> (fastapi \<Rightarrow> (error + py) \<times> fastapi) \<Rightarrow> fastapi \<Rightarrow> response \<times> fastapi" where
  "path_operation rt f a =
     (case f a of
        (Inl e, a') \<Rightarrow> (internal_server_error, a')
      | (Inr v, a') \<Rightarrow>
          (case jsonable_encoder v of
             Inl e \<Rightarrow> (internal_server_error, a')
           | Inr j \<Rightarrow>
               (\<lparr>status_code = (case route_status_code rt of Some c \<Rightarrow> c | None \<Rightarrow> 200),
                 body = JSON j\<rparr>, a')))"

text \<open>
  The generated schema lists the application's metadata and its path operations. It is
  generated at the first request for it and stored in the application object.
\<close>

definition get_openapi :: "fastapi \<Rightarrow> openapi_doc" where
  "get_openapi a =
     \<lparr>info_title = title a, info_description = description a, info_version = version a,
      operations = map (\<lambda>rt. (route_path rt, route_methods rt))
                     (filter include_in_schema (routes a))\<rparr>"

definition openapi :: "fastapi \<Rightarrow> openapi_doc \<times> fastapi" where
  "openapi a =
     (case openapi_schema a of
        Some d \<Rightarrow> (d, a)
      | None \<Rightarrow> (get_openapi a, a\<lparr>openapi_schema := Some (get_openapi a)\<rparr>))"

definition handle :: "route \<Rightarrow> fastapi \<Rightarrow> response \<times> fastapi" where
  "handle rt a =
     (case route_endpoint rt of
        Endpoint_read_root \<Rightarrow> path_operation rt read_root a
      | Endpoint_health_check \<Rightarrow> path_operation rt health_check a
      | Endpoint_openapi \<Rightarrow>
          (case openapi a of (d, a') \<Rightarrow> (\<lparr>status_code = 200, body = Schema d\<rparr>, a'))
      | Endpoint_swagger_ui_html \<Rightarrow>
          (case openapi_url a of
             Some u \<Rightarrow> (\<lparr>status_code = 200, body = Swagger_UI u (title a @ '' - Swagger UI'')\<rparr>, a)
           | None \<Rightarrow> (internal_server_error, a))
      | Endpoint_swagger_ui_redirect \<Rightarrow> (\<lparr>status_code = 200, body = OAuth2_Redirect_Page\<rparr>, a)
      | Endpoint_redoc_html \<Rightarrow>
          (case openapi_url a of
             Some u \<Rightarrow> (\<lparr>status_code = 200, body = ReDoc u (title a @ '' - ReDoc'')\<rparr>, a)
           | None \<Rightarrow> (internal_server_error, a)))"

subsection \<open>The application as a function of the request\<close>

definition serve :: "fastapi \<Rightarrow> request \<Rightarrow> response \<times> fastapi" where
  "serve a r =
     (case route_lookup (routes a) r None of
        Found rt \<Rightarrow> handle rt a
      | Method_Mismatch rt \<Rightarrow> (method_not_allowed, a)
      | Not_Matched \<Rightarrow>
          (if req_path r \<noteq> ''/'' \<and>
              list_ex (\<lambda>rt. matches rt (r\<lparr>req_path := redirect_path (req_path r)\<rparr>) \<noteq> NONE)
                (routes a)
           then (\<lparr>status_code = 307, body = Redirect (redirect_path (req_path r))\<rparr>, a)
           else (not_found, a)))"

text \<open>Requests served one after the other, each on the state the one before left.\<close>

fun run :: "fastapi \<Rightarrow> request list \<Rightarrow> response list \<times> fastapi" where
  "run a [] = ([], a)"
| "run a (r # rs) =
     (case serve a r of (x, a') \<Rightarrow> (case run a' rs of (xs, a'') \<Rightarrow> (x # xs, a'')))"

text \<open>
  The states the application can be in: the state the module builds, after any history of
  requests. (\<open>state_after []\<close> is \<open>app\<close> itself.)
\<close>

definition state_after :: "request list \<Rightarrow> fastapi" where
  "state_after h = snd (run app h)"

subsection \<open>Predicates used in the statements\<close>

fun is_str :: "py \<Rightarrow> bool" where
  "is_str (PyStr _) = True"
| "is_str _ = False"

text \<open>A dict that is a finite map from strings to strings: every key once.\<close>

fun str_dict :: "py \<Rightarrow> bool" where
  "str_dict (PyDict kvs) =
     (list_all (\<lambda>kv. is_str (fst kv) \<and> is_str (snd kv)) kvs \<and> distinct (map fst kvs))"
| "str_dict _ = False"

section \<open>The route table and its invariance\<close>

lemma routes_app:
  "routes app =
     [\<lparr>route_path = ''/openapi.json'', route_methods = [GET, HEAD],
        route_endpoint = Endpoint_openapi,
        route_status_code = None, include_in_schema = False\<rparr>,
      \<lparr>route_path = ''/docs'', route_methods = [GET, HEAD],
        route_endpoint = Endpoint_swagger_ui_html,
        route_status_code = None, include_in_schema = False\<rparr>,
      \<lparr>route_path = ''/docs/oauth2-redirect'', route_methods = [GET, HEAD],
        route_endpoint = Endpoint_swagger_ui_redirect,
        route_status_code = None, include_in_schema = False\<rparr>,
      \<lparr>route_path = ''/redoc'', route_methods = [GET, HEAD],
        route_endpoint = Endpoint_redoc_html,
        route_status_code = None, include_in_schema = False\<rparr>,
      \<lparr>route_path = ''/'', route_methods = [GET],
        route_endpoint = Endpoint_read_root,
        route_status_code = None, include_in_schema = True\<rparr>,
      \<lparr>route_path = ''/health'', route_methods = [GET],
        route_endpoint = Endpoint_health_check,
        route_status_code = None, include_in_schema = True\<rparr>]"
  by (simp add: app_def get_def FastAPI_def fastapi_setup_def add_route_def)

text \<open>Serving a request never touches the route table, whatever the request.\<close>

lemma path_operation_state:
  "snd (f a) = a \<Longrightarrow> snd (path_operation rt f a) = a"
  by (cases "f a") (auto simp: path_operation_def split: sum.splits)

lemma handle_routes: "routes (snd (handle rt a)) = routes a"
  by (cases "route_endpoint rt")
     (auto simp: handle_def path_operation_state read_root_def health_check_def openapi_def
           split: option.splits prod.splits)

lemma serve_routes: "routes (snd (serve a r)) = routes a"
  by (simp add: serve_def handle_routes split: lookup.splits)

lemma run_Cons:
  "run a (r # rs) =
     (fst (serve a r) # fst (run (snd (serve a r)) rs), snd (run (snd (serve a r)) rs))"
  by (simp split: prod.splits)

lemma run_routes: "routes (snd (run a rs)) = routes a"
proof (induction rs arbitrary: a)
  case Nil
  show ?case by simp
next
  case (Cons r rs)
  have "routes (snd (run (snd (serve a r)) rs)) = routes (snd (serve a r))"
    by (rule Cons.IH)
  then show ?case
    by (simp only: run_Cons snd_conv serve_routes)
qed

lemma routes_state_after: "routes (state_after h) = routes app"
  by (simp add: state_after_def run_routes)

lemma state_after_Nil: "state_after [] = app"
  by (simp add: state_after_def)

text \<open>The stored schema is the only part of the application object that serving changes.\<close>

lemma handle_state: "\<exists>c. snd (handle rt a) = a\<lparr>openapi_schema := c\<rparr>"
proof (cases "route_endpoint rt")
  case Endpoint_openapi
  then show ?thesis
    by (cases "openapi_schema a")
       (auto simp: handle_def openapi_def intro: exI [of _ "openapi_schema a"])
qed (auto simp: handle_def path_operation_def read_root_def health_check_def
          split: option.splits intro: exI [of _ "openapi_schema a"])

lemma serve_state: "\<exists>c. snd (serve a r) = a\<lparr>openapi_schema := c\<rparr>"
  using handle_state [of _ a]
  by (auto simp: serve_def split: lookup.splits intro: exI [of _ "openapi_schema a"])

lemma run_state: "\<exists>c. snd (run a rs) = a\<lparr>openapi_schema := c\<rparr>"
proof (induction rs arbitrary: a)
  case Nil
  show ?case by (auto intro: exI [of _ "openapi_schema a"])
next
  case (Cons r rs)
  obtain c where c: "snd (serve a r) = a\<lparr>openapi_schema := c\<rparr>"
    using serve_state by blast
  obtain c' where
    "snd (run (a\<lparr>openapi_schema := c\<rparr>) rs) = a\<lparr>openapi_schema := c\<rparr>\<lparr>openapi_schema := c'\<rparr>"
    using Cons.IH by blast
  with c show ?case
    by (simp only: run_Cons snd_conv) auto
qed

lemma state_after_app: "\<exists>c. state_after h = app\<lparr>openapi_schema := c\<rparr>"
  unfolding state_after_def by (rule run_state)

section \<open>The two endpoints\<close>

lemma serve_root:
  assumes "routes a = routes app" and "req_method r = GET" and "req_path r = ''/''"
  shows "serve a r =
           (\<lparr>status_code = 200,
             body = JSON (JObject [(''message'', JString ''Hello from CI/CD Pipeline!''),
                                   (''status'', JString ''running'')])\<rparr>, a)"
  using assms
  by (simp add: serve_def routes_app matches_def path_regex_match_def handle_def
        path_operation_def read_root_def)

lemma serve_health:
  assumes "routes a = routes app" and "req_method r = GET" and "req_path r = ''/health''"
  shows "serve a r =
           (\<lparr>status_code = 200, body = JSON (JObject [(''status'', JString ''healthy'')])\<rparr>, a)"
  using assms
  by (simp add: serve_def routes_app matches_def path_regex_match_def handle_def
        path_operation_def health_check_def)

lemma lookup_root:
  assumes "routes a = routes app" and "req_method r = GET" and "req_path r = ''/''"
  shows "route_lookup (routes a) r None =
           Found \<lparr>route_path = ''/'', route_methods = [GET], route_endpoint = Endpoint_read_root,
                  route_status_code = None, include_in_schema = True\<rparr>"
  using assms by (simp add: routes_app matches_def path_regex_match_def)

lemma lookup_health:
  assumes "routes a = routes app" and "req_method r = GET" and "req_path r = ''/health''"
  shows "route_lookup (routes a) r None =
           Found \<lparr>route_path = ''/health'', route_methods = [GET],
                  route_endpoint = Endpoint_health_check,
                  route_status_code = None, include_in_schema = True\<rparr>"
  using assms by (simp add: routes_app matches_def path_regex_match_def)

text \<open>
  C1. Every \<^verbatim>\<open>GET\<close> request to \<^verbatim>\<open>/\<close>, whatever else it carries and whatever requests
  the application has served before, is routed to \<open>read_root\<close> and answered with status 200
  and the JSON object of exactly the two fields \<^verbatim>\<open>message\<close> and \<^verbatim>\<open>status\<close>, with the
  values \<^verbatim>\<open>Hello from CI/CD Pipeline!\<close> and \<^verbatim>\<open>running\<close>.
\<close>

theorem read_root_response:
  assumes "req_method r = GET" and "req_path r = ''/''"
  shows "(\<exists>rt. route_lookup (routes (state_after h)) r None = Found rt \<and>
               route_endpoint rt = Endpoint_read_root) \<and>
         fst (serve (state_after h) r) =
           \<lparr>status_code = 200,
            body = JSON (JObject [(''message'', JString ''Hello from CI/CD Pipeline!''),
                                  (''status'', JString ''running'')])\<rparr>"
  using assms lookup_root [OF routes_state_after] serve_root [OF routes_state_after]
  by simp

theorem read_root_response_witness:
  "req_method \<lparr>req_method = GET, req_path = ''/'', req_query = ''verbose=1'',
               req_headers = [(''accept'', ''text/html'')], req_body = ''x''\<rparr> = GET \<and>
   req_path \<lparr>req_method = GET, req_path = ''/'', req_query = ''verbose=1'',
             req_headers = [(''accept'', ''text/html'')], req_body = ''x''\<rparr> = ''/'' \<and>
   fst (serve app \<lparr>req_method = GET, req_path = ''/'', req_query = ''verbose=1'',
                   req_headers = [(''accept'', ''text/html'')], req_body = ''x''\<rparr>) =
     \<lparr>status_code = 200,
      body = JSON (JObject [(''message'', JString ''Hello from CI/CD Pipeline!''),
                            (''status'', JString ''running'')])\<rparr>"
  using read_root_response
          [of "\<lparr>req_method = GET, req_path = ''/'', req_query = ''verbose=1'',
                req_headers = [(''accept'', ''text/html'')], req_body = ''x''\<rparr>" "[]"]
  by (simp add: state_after_Nil)

text \<open>
  C2. Every \<^verbatim>\<open>GET\<close> request to \<^verbatim>\<open>/health\<close>, in every state of the application, is
  routed to \<open>health_check\<close> and answered with status 200 and the JSON object whose only
  field is \<^verbatim>\<open>status\<close>, with the value \<^verbatim>\<open>healthy\<close>.
\<close>

theorem health_check_response:
  assumes "req_method r = GET" and "req_path r = ''/health''"
  shows "(\<exists>rt. route_lookup (routes (state_after h)) r None = Found rt \<and>
               route_endpoint rt = Endpoint_health_check) \<and>
         fst (serve (state_after h) r) =
           \<lparr>status_code = 200, body = JSON (JObject [(''status'', JString ''healthy'')])\<rparr>"
  using assms lookup_health [OF routes_state_after] serve_health [OF routes_state_after]
  by simp

theorem health_check_response_witness:
  "req_method \<lparr>req_method = GET, req_path = ''/health'', req_query = [],
               req_headers = [], req_body = []\<rparr> = GET \<and>
   req_path \<lparr>req_method = GET, req_path = ''/health'', req_query = [],
             req_headers = [], req_body = []\<rparr> = ''/health'' \<and>
   fst (serve app \<lparr>req_method = GET, req_path = ''/health'', req_query = [],
                   req_headers = [], req_body = []\<rparr>) =
     \<lparr>status_code = 200, body = JSON (JObject [(''status'', JString ''healthy'')])\<rparr>"
  using health_check_response
          [of "\<lparr>req_method = GET, req_path = ''/health'', req_query = [],
                req_headers = [], req_body = []\<rparr>" "[]"]
  by (simp add: state_after_Nil)

text \<open>
  C6. The metadata of the application object are the three constants of the module.
\<close>

theorem app_metadata:
  "title app = ''CI/CD Demo API'' \<and>
   description app = ''Complete CI/CD pipeline demonstration'' \<and>
   version app = ''1.0.0''"
  by (simp add: app_def get_def FastAPI_def fastapi_setup_def add_route_def)

section \<open>Requests that no route serves\<close>

lemma matches_NONE_iff:
  "matches rt r = NONE \<longleftrightarrow> \<not> path_regex_match (route_path rt) (req_path r)"
  by (simp add: matches_def)

lemma lookup_no_full:
  "\<forall>rt \<in> set rts. matches rt r \<noteq> FULL \<Longrightarrow> route_lookup rts r p \<noteq> Found x"
  by (induction rts arbitrary: p) (auto split: match.splits option.splits)

lemma lookup_partial:
  assumes "\<forall>rt \<in> set rts. matches rt r \<noteq> FULL"
    and "p \<noteq> None \<or> (\<exists>rt \<in> set rts. matches rt r \<noteq> NONE)"
  shows "\<exists>x. route_lookup rts r p = Method_Mismatch x"
  using assms
proof (induction rts arbitrary: p)
  case Nil
  then show ?case by auto
next
  case (Cons rt rts)
  show ?case
  proof (cases "matches rt r")
    case NONE
    with Cons.prems have "p \<noteq> None \<or> (\<exists>rt \<in> set rts. matches rt r \<noteq> NONE)"
      by auto
    with Cons.IH [of p] Cons.prems(1) NONE show ?thesis by simp
  next
    case PARTIAL
    have "(case p of None \<Rightarrow> Some rt | Some q \<Rightarrow> Some q) \<noteq> None"
      by (simp split: option.splits)
    with Cons.IH [of "case p of None \<Rightarrow> Some rt | Some q \<Rightarrow> Some q"] Cons.prems(1) PARTIAL
    show ?thesis by simp
  next
    case FULL
    with Cons.prems(1) show ?thesis by simp
  qed
qed

lemma lookup_none:
  "\<forall>rt \<in> set rts. matches rt r = NONE \<Longrightarrow> route_lookup rts r None = Not_Matched"
  by (induction rts) auto

text \<open>
  The status of a request that no route matches fully, for any route table: 405 when a
  route's pattern accepts the path, otherwise 307 when a route's pattern accepts the path
  rewritten for the redirect, otherwise 404.
\<close>

lemma serve_no_full:
  assumes "\<forall>rt \<in> set (routes a). matches rt r \<noteq> FULL"
  shows "status_code (fst (serve a r)) =
           (if list_ex (\<lambda>rt. path_regex_match (route_path rt) (req_path r)) (routes a) then 405
            else if req_path r \<noteq> ''/'' \<and>
                    list_ex (\<lambda>rt. path_regex_match (route_path rt) (redirect_path (req_path r)))
                      (routes a)
                 then 307
                 else 404)"
proof (cases "list_ex (\<lambda>rt. path_regex_match (route_path rt) (req_path r)) (routes a)")
  case True
  then have "\<exists>rt \<in> set (routes a). matches rt r \<noteq> NONE"
    by (simp add: list_ex_iff matches_NONE_iff)
  with assms obtain x where "route_lookup (routes a) r None = Method_Mismatch x"
    using lookup_partial [of "routes a" r None] by blast
  with True show ?thesis
    by (simp add: serve_def method_not_allowed_def)
next
  case False
  then have "\<forall>rt \<in> set (routes a). matches rt r = NONE"
    by (simp add: list_ex_iff matches_NONE_iff)
  then have "route_lookup (routes a) r None = Not_Matched"
    by (rule lookup_none)
  with False show ?thesis
    by (simp add: serve_def not_found_def matches_NONE_iff)
qed

text \<open>
  The requests that a route matches fully are answered with status 200: a \<^verbatim>\<open>GET\<close>
  request to one of the module's two paths, and a \<^verbatim>\<open>GET\<close> or \<^verbatim>\<open>HEAD\<close> request to one
  of the four documentation paths, each path also when a line feed follows it.
\<close>

lemma served_at:
  assumes "a = app\<lparr>openapi_schema := c\<rparr>"
    and "req_path r = p \<or> req_path r = p @ [CHR 0x0A]"
    and "(p = ''/'' \<or> p = ''/health'') \<and> req_method r = GET \<or>
         (p = ''/openapi.json'' \<or> p = ''/docs'' \<or> p = ''/docs/oauth2-redirect'' \<or>
          p = ''/redoc'') \<and>
         (req_method r = GET \<or> req_method r = HEAD)"
  shows "status_code (fst (serve a r)) = 200"
proof -
  have u: "openapi_url a = Some ''/openapi.json''"
    by (simp add: assms(1) app_def get_def FastAPI_def fastapi_setup_def add_route_def)
  have rts: "routes a = routes app"
    by (simp add: assms(1))
  have sim: "serve a r =
     (case route_lookup (routes app) r None of
        Found rt \<Rightarrow> handle rt a
      | Method_Mismatch rt \<Rightarrow> (method_not_allowed, a)
      | Not_Matched \<Rightarrow>
          (if req_path r \<noteq> ''/'' \<and>
              list_ex (\<lambda>rt. matches rt (r\<lparr>req_path := redirect_path (req_path r)\<rparr>) \<noteq> NONE)
                (routes app)
           then (\<lparr>status_code = 307, body = Redirect (redirect_path (req_path r))\<rparr>, a)
           else (not_found, a)))"
    by (simp add: serve_def rts)
  from assms(2,3) show ?thesis
    by (elim disjE conjE)
       (simp_all add: sim u routes_app matches_def path_regex_match_def handle_def
          path_operation_def read_root_def health_check_def openapi_def split: option.splits)
qed

lemma served_request_200:
  assumes "req_method r = GET \<and>
             (path_regex_match ''/'' (req_path r) \<or> path_regex_match ''/health'' (req_path r)) \<or>
           req_method r \<in> {GET, HEAD} \<and>
             list_ex (\<lambda>q. path_regex_match q (req_path r))
               [''/openapi.json'', ''/docs'', ''/docs/oauth2-redirect'', ''/redoc'']"
  shows "status_code (fst (serve (state_after h) r)) = 200"
proof -
  obtain c where c: "state_after h = app\<lparr>openapi_schema := c\<rparr>"
    using state_after_app by blast
  from assms obtain p where "path_regex_match p (req_path r)"
    and "(p = ''/'' \<or> p = ''/health'') \<and> req_method r = GET \<or>
         (p = ''/openapi.json'' \<or> p = ''/docs'' \<or> p = ''/docs/oauth2-redirect'' \<or>
          p = ''/redoc'') \<and>
         (req_method r = GET \<or> req_method r = HEAD)"
    by auto
  then show ?thesis
    using served_at [OF c, of r p] by (simp add: path_regex_match_def)
qed

text \<open>
  C3, as stated, fails. The constructor call of the module leaves the framework's
  documentation routes switched on, and a \<^verbatim>\<open>GET\<close> request to \<^verbatim>\<open>/docs\<close>, which is
  neither \<^verbatim>\<open>GET /\<close> nor \<^verbatim>\<open>GET /health\<close>, is answered with status 200. So is a
  \<^verbatim>\<open>GET\<close> request whose path is \<^verbatim>\<open>/health\<close> followed by a line feed: the pattern of
  the route \<^verbatim>\<open>/health\<close> accepts that path, which is not the path \<^verbatim>\<open>/health\<close>.
\<close>

theorem docs_request_status_200:
  "(GET, ''/docs'') \<noteq> (GET, ''/'') \<and> (GET, ''/docs'') \<noteq> (GET, ''/health'') \<and>
   status_code (fst (serve app \<lparr>req_method = GET, req_path = ''/docs'', req_query = [],
                                 req_headers = [], req_body = []\<rparr>)) = 200 \<and>
   (GET, ''/health'' @ [CHR 0x0A]) \<noteq> (GET, ''/'') \<and>
   (GET, ''/health'' @ [CHR 0x0A]) \<noteq> (GET, ''/health'') \<and>
   status_code (fst (serve app \<lparr>req_method = GET, req_path = ''/health'' @ [CHR 0x0A],
                                 req_query = [], req_headers = [], req_body = []\<rparr>)) = 200"
  by (simp add: serve_def routes_app matches_def path_regex_match_def handle_def
        path_operation_def health_check_def app_def get_def FastAPI_def fastapi_setup_def
        add_route_def)

text \<open>
  C3, amended. Say that a request goes to a path when the pattern of that path accepts the
  request's path, that is, when the request's path is that path or that path followed by
  one line feed. A request that does not go with \<^verbatim>\<open>GET\<close> to \<^verbatim>\<open>/\<close> or to
  \<^verbatim>\<open>/health\<close>, and does not go with \<^verbatim>\<open>GET\<close> or \<^verbatim>\<open>HEAD\<close> to one of the four
  documentation paths (\<^verbatim>\<open>/openapi.json\<close>, \<^verbatim>\<open>/docs\<close>, \<^verbatim>\<open>/docs/oauth2-redirect\<close>,
  \<^verbatim>\<open>/redoc\<close>), is answered, in every state of the application, with a status that is not
  200. The status is 405 when the request goes to the path of a registered route (whose
  methods then exclude the request's); otherwise it is 307 when the request's path with its
  trailing slashes removed, or with a slash added if it has none, goes to the path of a
  registered route; otherwise it is 404.
\<close>

theorem unmatched_request_not_200:
  assumes "\<not> (req_method r = GET \<and> path_regex_match ''/'' (req_path r))"
    and "\<not> (req_method r = GET \<and> path_regex_match ''/health'' (req_path r))"
    and "\<not> (req_method r \<in> {GET, HEAD} \<and>
             list_ex (\<lambda>q. path_regex_match q (req_path r))
               [''/openapi.json'', ''/docs'', ''/docs/oauth2-redirect'', ''/redoc''])"
  shows "status_code (fst (serve (state_after h) r)) \<noteq> 200 \<and>
         status_code (fst (serve (state_after h) r)) =
           (if list_ex (\<lambda>rt. path_regex_match (route_path rt) (req_path r)) (routes app)
            then 405
            else if list_ex (\<lambda>rt. path_regex_match (route_path rt) (redirect_path (req_path r)))
                      (routes app)
                 then 307
                 else 404)"
proof -
  have "\<forall>rt \<in> set (routes (state_after h)). matches rt r \<noteq> FULL"
    using assms by (auto simp: routes_state_after routes_app matches_def)
  then have status:
    "status_code (fst (serve (state_after h) r)) =
       (if list_ex (\<lambda>rt. path_regex_match (route_path rt) (req_path r)) (routes app) then 405
        else if req_path r \<noteq> ''/'' \<and>
                list_ex (\<lambda>rt. path_regex_match (route_path rt) (redirect_path (req_path r)))
                  (routes app)
             then 307
             else 404)"
    using serve_no_full [of "state_after h" r] by (simp only: routes_state_after)
  have "req_path r \<noteq> ''/''"
    if "\<not> list_ex (\<lambda>rt. path_regex_match (route_path rt) (req_path r)) (routes app)"
  proof -
    from that have "\<not> path_regex_match ''/'' (req_path r)"
      by (simp add: routes_app)
    then show ?thesis
      by (auto simp: path_regex_match_def)
  qed
  with status show ?thesis
    by (auto split: if_splits)
qed

theorem unmatched_request_not_200_witness:
  "\<not> (POST = GET \<and> path_regex_match ''/'' ''/health'') \<and>
   \<not> (POST = GET \<and> path_regex_match ''/health'' ''/health'') \<and>
   \<not> (POST \<in> {GET, HEAD} \<and>
       list_ex (\<lambda>q. path_regex_match q ''/health'')
         [''/openapi.json'', ''/docs'', ''/docs/oauth2-redirect'', ''/redoc'']) \<and>
   status_code (fst (serve app \<lparr>req_method = POST, req_path = ''/health'', req_query = [],
                                 req_headers = [], req_body = ''{}''\<rparr>)) = 405"
  using unmatched_request_not_200
          [of "\<lparr>req_method = POST, req_path = ''/health'', req_query = [],
                req_headers = [], req_body = ''{}''\<rparr>" "[]"]
  by (simp add: state_after_Nil routes_app path_regex_match_def)

section \<open>Repeated calls\<close>

lemma run_constant:
  assumes "\<forall>r \<in> set rs. serve a r = (x, a)"
  shows "run a rs = (replicate (length rs) x, a)"
  using assms by (induction rs) auto

lemma serve_endpoint_fixed:
  assumes "routes a = routes app" and "p = ''/'' \<or> p = ''/health''"
    and "req_method r = GET" and "req_path r = p"
    and "req_method r' = GET" and "req_path r' = p"
  shows "serve a r' = (fst (serve a r), a)"
  using assms serve_root [of a r] serve_root [of a r'] serve_health [of a r] serve_health [of a r']
  by auto

text \<open>
  C4. A sequence of \<^verbatim>\<open>GET\<close> calls, all to \<^verbatim>\<open>/\<close> or all to \<^verbatim>\<open>/health\<close>, started in
  any state of the application: every call returns what the first call returns, and the
  state after the sequence is the state before it.
\<close>

theorem repeated_calls_idempotent:
  assumes "p = ''/'' \<or> p = ''/health''"
    and "\<forall>r \<in> set (r0 # rs). req_method r = GET \<and> req_path r = p"
  shows "run (state_after h) (r0 # rs) =
           (replicate (Suc (length rs)) (fst (serve (state_after h) r0)), state_after h)"
proof -
  have first: "req_method r0 = GET" "req_path r0 = p"
    using assms(2) by simp_all
  have "serve (state_after h) r = (fst (serve (state_after h) r0), state_after h)"
    if "r \<in> set (r0 # rs)" for r
  proof -
    from that assms(2) have "req_method r = GET" and "req_path r = p"
      by blast+
    then show ?thesis
      by (rule serve_endpoint_fixed [OF routes_state_after assms(1) first])
  qed
  then have "\<forall>r \<in> set (r0 # rs).
               serve (state_after h) r = (fst (serve (state_after h) r0), state_after h)"
    by blast
  then have "run (state_after h) (r0 # rs) =
               (replicate (length (r0 # rs)) (fst (serve (state_after h) r0)), state_after h)"
    by (rule run_constant)
  then show ?thesis by (simp only: length_Cons)
qed

theorem repeated_calls_idempotent_witness:
  "(''/health'' = ''/'' \<or> ''/health'' = ''/health'') \<and>
   run app [\<lparr>req_method = GET, req_path = ''/health'', req_query = [],
             req_headers = [], req_body = []\<rparr>,
            \<lparr>req_method = GET, req_path = ''/health'', req_query = ''n=2'',
             req_headers = [(''user-agent'', ''probe'')], req_body = []\<rparr>,
            \<lparr>req_method = GET, req_path = ''/health'', req_query = [],
             req_headers = [], req_body = []\<rparr>] =
     (replicate 3 \<lparr>status_code = 200, body = JSON (JObject [(''status'', JString ''healthy'')])\<rparr>,
      app)"
  using repeated_calls_idempotent
          [of "''/health''"
              "\<lparr>req_method = GET, req_path = ''/health'', req_query = [],
                req_headers = [], req_body = []\<rparr>"
              "[\<lparr>req_method = GET, req_path = ''/health'', req_query = ''n=2'',
                 req_headers = [(''user-agent'', ''probe'')], req_body = []\<rparr>,
                \<lparr>req_method = GET, req_path = ''/health'', req_query = [],
                 req_headers = [], req_body = []\<rparr>]"
              "[]"]
        serve_health [of app "\<lparr>req_method = GET, req_path = ''/health'', req_query = [],
                req_headers = [], req_body = []\<rparr>"]
  by (simp add: state_after_Nil numeral_3_eq_3 del: run.simps)

section \<open>What is registered\<close>

text \<open>
  C5, as stated, fails: the route table of the application object holds more than the two
  routes of the module. The constructor has put the framework's documentation routes
  there, \<^verbatim>\<open>/docs\<close> among them.
\<close>

theorem docs_route_registered:
  "length (routes app) = 6 \<and>
   \<lparr>route_path = ''/docs'', route_methods = [GET, HEAD],
    route_endpoint = Endpoint_swagger_ui_html,
    route_status_code = None, include_in_schema = False\<rparr> \<in> set (routes app)"
  by (simp add: routes_app)

text \<open>
  C5, amended. The module registers exactly two routes, in this order: \<^verbatim>\<open>GET /\<close> mapped
  to \<open>read_root\<close> and \<^verbatim>\<open>GET /health\<close> mapped to \<open>health_check\<close>. They are the
  application's only path operations. The route table holds them after the routes that the
  constructor installed, which are the four documentation routes (\<^verbatim>\<open>/openapi.json\<close>,
  \<^verbatim>\<open>/docs\<close>, \<^verbatim>\<open>/docs/oauth2-redirect\<close>, \<^verbatim>\<open>/redoc\<close>, each for \<^verbatim>\<open>GET\<close> and
  \<^verbatim>\<open>HEAD\<close>), and holds nothing else.
\<close>

theorem registered_routes:
  "routes app =
     routes (FastAPI ''CI/CD Demo API'' ''Complete CI/CD pipeline demonstration'' ''1.0.0'') @
     [\<lparr>route_path = ''/'', route_methods = [GET], route_endpoint = Endpoint_read_root,
       route_status_code = None, include_in_schema = True\<rparr>,
      \<lparr>route_path = ''/health'', route_methods = [GET], route_endpoint = Endpoint_health_check,
       route_status_code = None, include_in_schema = True\<rparr>] \<and>
   filter include_in_schema (routes app) =
     [\<lparr>route_path = ''/'', route_methods = [GET], route_endpoint = Endpoint_read_root,
       route_status_code = None, include_in_schema = True\<rparr>,
      \<lparr>route_path = ''/health'', route_methods = [GET], route_endpoint = Endpoint_health_check,
       route_status_code = None, include_in_schema = True\<rparr>] \<and>
   routes (FastAPI ''CI/CD Demo API'' ''Complete CI/CD pipeline demonstration'' ''1.0.0'') =
     [\<lparr>route_path = ''/openapi.json'', route_methods = [GET, HEAD],
       route_endpoint = Endpoint_openapi,
       route_status_code = None, include_in_schema = False\<rparr>,
      \<lparr>route_path = ''/docs'', route_methods = [GET, HEAD],
       route_endpoint = Endpoint_swagger_ui_html,
       route_status_code = None, include_in_schema = False\<rparr>,
      \<lparr>route_path = ''/docs/oauth2-redirect'', route_methods = [GET, HEAD],
       route_endpoint = Endpoint_swagger_ui_redirect,
       route_status_code = None, include_in_schema = False\<rparr>,
      \<lparr>route_path = ''/redoc'', route_methods = [GET, HEAD],
       route_endpoint = Endpoint_redoc_html,
       route_status_code = None, include_in_schema = False\<rparr>]"
  by (simp add: app_def get_def FastAPI_def fastapi_setup_def add_route_def)

section \<open>The handlers\<close>

text \<open>
  C7. In every state, each handler returns a value, not an exception, and leaves the state
  as it found it.
\<close>

theorem handlers_cannot_fail:
  "(\<exists>v. fst (read_root s) = Inr v) \<and> snd (read_root s) = s \<and>
   (\<exists>v. fst (health_check s) = Inr v) \<and> snd (health_check s) = s"
  by (simp add: read_root_def health_check_def)

text \<open>
  C8. Two \<^verbatim>\<open>GET\<close> requests to the same endpoint, \<^verbatim>\<open>/\<close> or \<^verbatim>\<open>/health\<close>, get the same
  response, whatever their query strings, headers and bodies, and whatever the
  application has served before each of them.
\<close>

theorem response_independent_of_request:
  assumes "req_path r1 = ''/'' \<or> req_path r1 = ''/health''"
    and "req_path r2 = req_path r1"
    and "req_method r1 = GET" and "req_method r2 = GET"
  shows "fst (serve (state_after h1) r1) = fst (serve (state_after h2) r2)"
  using assms
    serve_root [OF routes_state_after, of r1 h1] serve_root [OF routes_state_after, of r2 h2]
    serve_health [OF routes_state_after, of r1 h1] serve_health [OF routes_state_after, of r2 h2]
  by auto

theorem response_independent_of_request_witness:
  "(req_path \<lparr>req_method = GET, req_path = ''/'', req_query = ''a=1'',
              req_headers = [(''authorization'', ''Bearer t'')], req_body = ''{}''\<rparr> = ''/'' \<or>
    req_path \<lparr>req_method = GET, req_path = ''/'', req_query = ''a=1'',
              req_headers = [(''authorization'', ''Bearer t'')], req_body = ''{}''\<rparr> = ''/health'') \<and>
   fst (serve app \<lparr>req_method = GET, req_path = ''/'', req_query = ''a=1'',
                   req_headers = [(''authorization'', ''Bearer t'')], req_body = ''{}''\<rparr>) =
   fst (serve (state_after [\<lparr>req_method = GET, req_path = ''/openapi.json'', req_query = [],
                             req_headers = [], req_body = []\<rparr>])
          \<lparr>req_method = GET, req_path = ''/'', req_query = [], req_headers = [],
           req_body = []\<rparr>)"
  using response_independent_of_request
          [of "\<lparr>req_method = GET, req_path = ''/'', req_query = ''a=1'',
                req_headers = [(''authorization'', ''Bearer t'')], req_body = ''{}''\<rparr>"
              "\<lparr>req_method = GET, req_path = ''/'', req_query = [], req_headers = [],
                req_body = []\<rparr>"
              "[]"
              "[\<lparr>req_method = GET, req_path = ''/openapi.json'', req_query = [],
                 req_headers = [], req_body = []\<rparr>]"]
  by (simp add: state_after_Nil)

text \<open>
  C9. Each handler is a straight-line function: in every state a call returns, and it
  returns the dict of its \<^verbatim>\<open>return\<close> statement.
\<close>

theorem handlers_return:
  "read_root s =
     (Inr (PyDict [(PyStr ''message'', PyStr ''Hello from CI/CD Pipeline!''),
                   (PyStr ''status'', PyStr ''running'')]), s) \<and>
   health_check s = (Inr (PyDict [(PyStr ''status'', PyStr ''healthy'')]), s)"
  by (simp add: read_root_def health_check_def)

section \<open>Serialisation\<close>

text \<open>Any dict from strings to strings is encoded without an exception.\<close>

lemma encode_str_items:
  "list_all (\<lambda>kv. is_str (fst kv) \<and> is_str (snd kv)) kvs \<Longrightarrow> \<exists>js. encode_items kvs = Inr js"
proof (induction kvs)
  case Nil
  show ?case by simp
next
  case (Cons kv kvs)
  obtain k v where kv: "kv = (k, v)" by (cases kv)
  from Cons.prems kv obtain s t where "k = PyStr s" "v = PyStr t"
    by (cases k; cases v) auto
  moreover from Cons obtain js where "encode_items kvs = Inr js" by auto
  ultimately show ?case using kv by (cases "take 3 s = ''_sa''") simp_all
qed

lemma str_dict_encodes: "str_dict v \<Longrightarrow> \<exists>j. jsonable_encoder v = Inr j"
proof (cases v)
  case (PyDict kvs)
  assume "str_dict v"
  with PyDict obtain js where "encode_items kvs = Inr js"
    using encode_str_items by auto
  with PyDict show ?thesis by simp
qed auto

text \<open>
  C10. What either handler returns is a dict from strings to strings, each key once, and
  such a value is always encoded: serialising a handler's result raises nothing.
\<close>

theorem handler_results_serializable:
  "(\<exists>v. fst (read_root s) = Inr v \<and> str_dict v \<and> (\<exists>j. jsonable_encoder v = Inr j)) \<and>
   (\<exists>v. fst (health_check s) = Inr v \<and> str_dict v \<and> (\<exists>j. jsonable_encoder v = Inr j))"
proof -
  have "str_dict (PyDict [(PyStr ''message'', PyStr ''Hello from CI/CD Pipeline!''),
                          (PyStr ''status'', PyStr ''running'')])"
    by simp
  moreover have "str_dict (PyDict [(PyStr ''status'', PyStr ''healthy'')])"
    by simp
  ultimately show ?thesis
    unfolding read_root_def health_check_def using str_dict_encodes by (metis fst_conv)
qed

end
